theory Spec2Isabelle
  imports Main "HOL-Library.AList"
begin

section \<open>The base question of the survey library\<close>

text \<open>
  Shallow embedding of the class \<^verbatim>\<open>QuestionBase\<close> of \<^verbatim>\<open>src/questionbase.ts\<close>.
  An element is a record; every method takes the element and returns the updated one.
  The calls that leave the element (a callback slot that is invoked, the notification of
  the survey, the lookup of a custom widget) are appended to the field \<open>trace\<close>, in the
  order in which the source makes them. Callbacks are opaque: the model records that a
  callback ran, and takes it not to call back into the element.
\<close>

subsection \<open>Values\<close>

text \<open>The values kept in the property hash and passed to conditions.\<close>

datatype pvalue = PNull | PBool bool | PNum int | PStr string

text \<open>
  The TypeScript types of the getters fix which constructor a property holds; the
  projections below read it. Their last equation is never reached through the typed setters.
\<close>

fun bool_of :: "pvalue \<Rightarrow> bool" where
  "bool_of (PBool b) = b"
| "bool_of _ = False"

fun num_of :: "pvalue \<Rightarrow> int" where
  "num_of (PNum n) = n"
| "num_of _ = 0"

fun str_of :: "pvalue \<Rightarrow> string" where
  "str_of (PStr s) = s"
| "str_of _ = []"

text \<open>A callback is a function \<^verbatim>\<open>() => void\<close> supplied from outside; the model keeps a label for it.\<close>

type_synonym callback = string

datatype event =
    Invoked callback
  | QuestionVisibilityChanged bool
  | GetCustomWidget

datatype error = EvaluationError | TypeError

text \<open>
  The values in the object that \<^verbatim>\<open>cssClasses\<close> builds: a class name, a nested object (a list
  of keys with their values), or undefined, which is what reading an absent entry gives.
\<close>

datatype css = CUndefined | CStr string | CObj "(string \<times> css) list"

type_synonym css_object = "(string \<times> css) list"

datatype widget = Widget string

datatype surveyError = SurveyError string

text \<open>
  What a getter written with \<^verbatim>\<open>&&\<close> and \<^verbatim>\<open>||\<close> returns: a boolean, or the absent reference
  itself (undefined or null, as the element holds it when no survey is attached), which is
  falsy but is not the boolean false.
\<close>

datatype jsvalue = JUndefined | JBool bool

fun truthy :: "jsvalue \<Rightarrow> bool" where
  "truthy JUndefined = False"
| "truthy (JBool b) = b"

subsection \<open>Collaborators\<close>

text \<open>
  The survey (interface \<^verbatim>\<open>ISurvey\<close> of \<^verbatim>\<open>./base\<close>) the element reads and notifies: its design
  mode and its hook on the css classes of a question, which receives the classes and may
  change them in any way.
\<close>

record survey =
  survey_isDesignMode :: bool
  updateQuestionCssClasses :: "css_object \<Rightarrow> css_object"

text \<open>
  Modelled from the spec: the class \<^verbatim>\<open>ConditionRunner\<close> of \<^verbatim>\<open>./conditions\<close>, which is not among
  the sources. The spec has it as an opaque service: built from an expression string, it
  holds that string, and \<^verbatim>\<open>run(values)\<close> gives a boolean or fails with an evaluation error.
  The evaluation itself is the parameter \<open>ev\<close> of every function that runs a condition.
\<close>

record conditionRunner =
  expression :: string

type_synonym evaluator = "string \<Rightarrow> (string \<rightharpoonup> pvalue) \<Rightarrow> error + bool"

definition new_ConditionRunner :: "string \<Rightarrow> conditionRunner" where
  "new_ConditionRunner e = \<lparr>expression = e\<rparr>"

definition run :: "evaluator \<Rightarrow> conditionRunner \<Rightarrow> (string \<rightharpoonup> pvalue) \<Rightarrow> error + bool" where
  "run ev r vals = ev (expression r) vals"

subsection \<open>The element\<close>

record question =
  name :: string
  propertyHash :: "string \<rightharpoonup> pvalue"
  conditionRunner :: "conditionRunner option"
  isCustomWidgetRequested :: bool
  customWidgetValue :: "widget option"
  focusCallback :: "callback option"
  renderWidthChangedCallback :: "callback option"
  rowVisibilityChangedCallback :: "callback option"
  startWithNewLineChangedCallback :: "callback option"
  visibilityChangedCallback :: "callback option"
  visibleIndexChangedCallback :: "callback option"
  readOnlyChangedCallback :: "callback option"
  surveyLoadCallback :: "callback option"
  survey :: "survey option"
  trace :: "event list"

text \<open>
  The widget registry \<^verbatim>\<open>CustomWidgetCollection.Instance.getCustomWidget\<close> of
  \<^verbatim>\<open>./questionCustomWidgets\<close>: given the element it answers a widget or nothing.
\<close>

type_synonym resolver = "question \<Rightarrow> widget option"

subsection \<open>The property store\<close>

text \<open>
  Modelled from the spec: \<^verbatim>\<open>getPropertyValue\<close> and \<^verbatim>\<open>setPropertyValue\<close> of the class \<^verbatim>\<open>Base\<close> of
  \<^verbatim>\<open>./base\<close>, which is not among the sources. After the spec, \<^verbatim>\<open>get(name, default)\<close> returns the
  stored value, or the default if the property was never set, and \<^verbatim>\<open>set(name, value)\<close>
  stores unconditionally.
\<close>

definition getPropertyValue :: "question \<Rightarrow> string \<Rightarrow> pvalue \<Rightarrow> pvalue" where
  "getPropertyValue q n d = (case propertyHash q n of None \<Rightarrow> d | Some v \<Rightarrow> v)"

definition setPropertyValue :: "string \<Rightarrow> pvalue \<Rightarrow> question \<Rightarrow> question" where
  "setPropertyValue n v q = q\<lparr>propertyHash := (propertyHash q)(n \<mapsto> v)\<rparr>"

subsection \<open>Getters\<close>


definition isPanel :: "question \<Rightarrow> bool" where
  "isPanel q = False"

definition visible :: "question \<Rightarrow> bool" where
  "visible q = bool_of (getPropertyValue q ''visible'' (PBool True))"

definition visibleIf :: "question \<Rightarrow> string" where
  "visibleIf q = str_of (getPropertyValue q ''visibleIf'' (PStr []))"

text \<open>
  \<^verbatim>\<open>this.survey && this.survey.isDesignMode\<close>: without a survey the conjunction is its left
  operand, the absent reference; with one it is the design mode of the survey.
  \<^verbatim>\<open>this.visible || this.isDesignMode\<close>: the disjunction is \<open>true\<close> when the element is visible,
  and its right operand otherwise.
\<close>

definition isDesignMode :: "question \<Rightarrow> jsvalue" where
  "isDesignMode q = (case survey q of None \<Rightarrow> JUndefined | Some s \<Rightarrow> JBool (survey_isDesignMode s))"

definition isVisible :: "question \<Rightarrow> jsvalue" where
  "isVisible q = (if visible q then JBool True else isDesignMode q)"

definition isReadOnly :: "question \<Rightarrow> bool" where
  "isReadOnly q = True"

definition visibleIndex :: "question \<Rightarrow> int" where
  "visibleIndex q = num_of (getPropertyValue q ''visibleIndex'' (PNum (- 1)))"

definition hasErrors :: "question \<Rightarrow> bool \<Rightarrow> bool" where
  "hasErrors q fireCallback = False"

definition currentErrorCount :: "question \<Rightarrow> int" where
  "currentErrorCount q = 0"

definition hasTitle :: "question \<Rightarrow> bool" where
  "hasTitle q = False"

definition hasDescription :: "question \<Rightarrow> bool" where
  "hasDescription q = False"

definition hasInput :: "question \<Rightarrow> bool" where
  "hasInput q = False"

definition hasComment :: "question \<Rightarrow> bool" where
  "hasComment q = False"

definition id_q :: "question \<Rightarrow> string" where
  "id_q q = str_of (getPropertyValue q ''id'' PNull)"

definition getAllErrors :: "question \<Rightarrow> surveyError list" where
  "getAllErrors q = []"

definition startWithNewLine :: "question \<Rightarrow> bool" where
  "startWithNewLine q = bool_of (getPropertyValue q ''startWithNewLine'' (PBool True))"

definition width :: "question \<Rightarrow> string" where
  "width q = str_of (getPropertyValue q ''width'' (PStr []))"

definition renderWidth :: "question \<Rightarrow> string" where
  "renderWidth q = str_of (getPropertyValue q ''renderWidth'' (PStr []))"

definition indent :: "question \<Rightarrow> int" where
  "indent q = num_of (getPropertyValue q ''indent'' (PNum 0))"

definition rightIndent :: "question \<Rightarrow> int" where
  "rightIndent q = num_of (getPropertyValue q ''rightIndent'' (PNum 0))"

subsection \<open>Hooks and setters\<close>

text \<open>\<^verbatim>\<open>if (callback) callback();\<close>: an empty slot does nothing, a filled one is invoked.\<close>

definition fireCallback :: "callback option \<Rightarrow> question \<Rightarrow> question" where
  "fireCallback cb q = (case cb of None \<Rightarrow> q | Some c \<Rightarrow> q\<lparr>trace := trace q @ [Invoked c]\<rparr>)"

text \<open>The events of firing a slot, for the statements below.\<close>

fun invoked :: "callback option \<Rightarrow> event list" where
  "invoked None = []"
| "invoked (Some c) = [Invoked c]"

definition set_visible :: "bool \<Rightarrow> question \<Rightarrow> question" where
  "set_visible val q =
     (if val = visible q then q
      else
        let q1 = setPropertyValue ''visible'' (PBool val) q;
            q2 = fireCallback (visibilityChangedCallback q1) q1;
            q3 = fireCallback (rowVisibilityChangedCallback q2) q2
        in (case survey q3 of
              None \<Rightarrow> q3
            | Some s \<Rightarrow> q3\<lparr>trace := trace q3 @ [QuestionVisibilityChanged (visible q3)]\<rparr>))"

definition set_visibleIf :: "string \<Rightarrow> question \<Rightarrow> question" where
  "set_visibleIf val q = setPropertyValue ''visibleIf'' (PStr val) q"

definition set_id :: "string \<Rightarrow> question \<Rightarrow> question" where
  "set_id val q = setPropertyValue ''id'' (PStr val) q"

definition set_startWithNewLine :: "bool \<Rightarrow> question \<Rightarrow> question" where
  "set_startWithNewLine val q =
     (if startWithNewLine q = val then q
      else
        let q1 = setPropertyValue ''startWithNewLine'' (PBool val) q
        in (case startWithNewLineChangedCallback q1 of
              None \<Rightarrow> q1
            | Some c \<Rightarrow> q1\<lparr>trace := trace q1 @ [Invoked c]\<rparr>))"

definition set_width :: "string \<Rightarrow> question \<Rightarrow> question" where
  "set_width val q = setPropertyValue ''width'' (PStr val) q"

definition set_renderWidth :: "string \<Rightarrow> question \<Rightarrow> question" where
  "set_renderWidth val q =
     (if val = renderWidth q then q
      else
        let q1 = setPropertyValue ''renderWidth'' (PStr val) q
        in fireCallback (renderWidthChangedCallback q1) q1)"

definition set_indent :: "int \<Rightarrow> question \<Rightarrow> question" where
  "set_indent val q =
     (if val = indent q then q
      else
        let q1 = setPropertyValue ''indent'' (PNum val) q
        in fireCallback (renderWidthChangedCallback q1) q1)"

definition set_rightIndent :: "int \<Rightarrow> question \<Rightarrow> question" where
  "set_rightIndent val q =
     (if val = rightIndent q then q
      else
        let q1 = setPropertyValue ''rightIndent'' (PNum val) q
        in fireCallback (renderWidthChangedCallback q1) q1)"

definition setVisibleIndex :: "int \<Rightarrow> question \<Rightarrow> int \<times> question" where
  "setVisibleIndex val q =
     (if visibleIndex q = val then (1, q)
      else
        let q1 = setPropertyValue ''visibleIndex'' (PNum val) q
        in (1, fireCallback (visibleIndexChangedCallback q1) q1))"

definition onSurveyLoad :: "question \<Rightarrow> question" where
  "onSurveyLoad q = fireCallback (surveyLoadCallback q) q"

subsection \<open>The visibility condition\<close>

text \<open>
  \<^verbatim>\<open>runCondition\<close> returns the element on the right; when the evaluator fails, the error
  leaves the method uncaught, and the result is on the left with the element as the
  method left it.
\<close>

definition runCondition ::
  "evaluator \<Rightarrow> (string \<rightharpoonup> pvalue) \<Rightarrow> question \<Rightarrow> error \<times> question + question" where
  "runCondition ev vals q =
     (if visibleIf q = [] then Inr q
      else
        let r0 = (case conditionRunner q of
                    None \<Rightarrow> new_ConditionRunner (visibleIf q)
                  | Some r \<Rightarrow> r);
            r1 = r0\<lparr>expression := visibleIf q\<rparr>;
            q1 = q\<lparr>conditionRunner := Some r1\<rparr>
        in (case run ev r1 vals of
              Inl e \<Rightarrow> Inl (e, q1)
            | Inr b \<Rightarrow> Inr (set_visible b q1)))"

subsection \<open>The custom widget\<close>

definition updateCustomWidget :: "resolver \<Rightarrow> question \<Rightarrow> question" where
  "updateCustomWidget getCustomWidget q =
     q\<lparr>customWidgetValue := getCustomWidget q, trace := trace q @ [GetCustomWidget]\<rparr>"

definition customWidget :: "resolver \<Rightarrow> question \<Rightarrow> widget option \<times> question" where
  "customWidget getCustomWidget q =
     (let q1 = (if \<not> isCustomWidgetRequested q \<and> customWidgetValue q = None
                then updateCustomWidget getCustomWidget (q\<lparr>isCustomWidgetRequested := True\<rparr>)
                else q)
      in (customWidgetValue q1, q1))"

subsection \<open>Construction\<close>

text \<open>
  \<^verbatim>\<open>"sq_" + QuestionBase.questionCounter++\<close>: the counter is written in decimal after the
  prefix. The counter is a JavaScript number, exact on the integers below \<open>2 ^ 53\<close>; the
  model takes it as a natural number.
\<close>

definition digit :: "nat \<Rightarrow> char" where
  "digit d = ''0123456789'' ! d"

fun toString :: "nat \<Rightarrow> string" where
  "toString n = (if n < 10 then [digit n] else toString (n div 10) @ [digit (n mod 10)])"

declare toString.simps [simp del]

text \<open>The static counter is passed in and returned incremented.\<close>

definition getQuestionId :: "nat \<Rightarrow> string \<times> nat" where
  "getQuestionId questionCounter = (''sq_'' @ toString questionCounter, questionCounter + 1)"

definition onCreating :: "question \<Rightarrow> question" where
  "onCreating q = q"

definition new_QuestionBase :: "string \<Rightarrow> nat \<Rightarrow> question \<times> nat" where
  "new_QuestionBase nm questionCounter =
     (let (newId, counter1) = getQuestionId questionCounter;
          q0 = \<lparr>name = nm, propertyHash = Map.empty, conditionRunner = None,
                isCustomWidgetRequested = False, customWidgetValue = None,
                focusCallback = None, renderWidthChangedCallback = None,
                rowVisibilityChangedCallback = None, startWithNewLineChangedCallback = None,
                visibilityChangedCallback = None, visibleIndexChangedCallback = None,
                readOnlyChangedCallback = None, surveyLoadCallback = None,
                survey = None, trace = []\<rparr>
      in (onCreating (set_id newId q0), counter1))"

text \<open>Constructing one element after another, each from the counter the last one left.\<close>

fun construct_all :: "string list \<Rightarrow> nat \<Rightarrow> question list \<times> nat" where
  "construct_all [] questionCounter = ([], questionCounter)"
| "construct_all (nm # nms) questionCounter =
     (let (q, counter1) = new_QuestionBase nm questionCounter;
          (qs, counter2) = construct_all nms counter1
      in (q # qs, counter2))"

subsection \<open>The operations of an element\<close>

text \<open>The methods with an empty body.\<close>

definition focus :: "bool \<Rightarrow> question \<Rightarrow> question" where
  "focus onError q = q"

definition onSurveyValueChanged :: "pvalue \<Rightarrow> question \<Rightarrow> question" where
  "onSurveyValueChanged newValue q = q"

definition clearUnusedValues :: "question \<Rightarrow> question" where
  "clearUnusedValues q = q"

definition onReadOnlyChanged :: "question \<Rightarrow> question" where
  "onReadOnlyChanged q = q"

definition onAnyValueChanged :: "string \<Rightarrow> question \<Rightarrow> question" where
  "onAnyValueChanged nm q = q"

text \<open>
  A later operation on an element is one of the setters and methods above. The widget
  registry may change between two operations, so each lookup names the resolver it meets.
\<close>

datatype op =
    SetVisible bool
  | SetVisibleIf string
  | SetId string
  | SetStartWithNewLine bool
  | SetWidth string
  | SetRenderWidth string
  | SetIndent int
  | SetRightIndent int
  | SetVisibleIndex int
  | RunCondition "string \<rightharpoonup> pvalue"
  | ReadCustomWidget resolver
  | UpdateCustomWidget resolver
  | OnSurveyLoad
  | Focus bool
  | OnSurveyValueChanged pvalue
  | ClearUnusedValues
  | OnReadOnlyChanged
  | OnAnyValueChanged string

text \<open>The element after one operation; after a failed evaluation it is the element as the error left it.\<close>

fun step :: "evaluator \<Rightarrow> op \<Rightarrow> question \<Rightarrow> question" where
  "step ev (SetVisible b) q = set_visible b q"
| "step ev (SetVisibleIf s) q = set_visibleIf s q"
| "step ev (SetId s) q = set_id s q"
| "step ev (SetStartWithNewLine b) q = set_startWithNewLine b q"
| "step ev (SetWidth s) q = set_width s q"
| "step ev (SetRenderWidth s) q = set_renderWidth s q"
| "step ev (SetIndent n) q = set_indent n q"
| "step ev (SetRightIndent n) q = set_rightIndent n q"
| "step ev (SetVisibleIndex n) q = snd (setVisibleIndex n q)"
| "step ev (RunCondition vals) q =
     (case runCondition ev vals q of Inl (e, q1) \<Rightarrow> q1 | Inr q1 \<Rightarrow> q1)"
| "step ev (ReadCustomWidget g) q = snd (customWidget g q)"
| "step ev (UpdateCustomWidget g) q = updateCustomWidget g q"
| "step ev OnSurveyLoad q = onSurveyLoad q"
| "step ev (Focus b) q = focus b q"
| "step ev (OnSurveyValueChanged v) q = onSurveyValueChanged v q"
| "step ev ClearUnusedValues q = clearUnusedValues q"
| "step ev OnReadOnlyChanged q = onReadOnlyChanged q"
| "step ev (OnAnyValueChanged s) q = onAnyValueChanged s q"

fun exec :: "evaluator \<Rightarrow> op list \<Rightarrow> question \<Rightarrow> question" where
  "exec ev [] q = q"
| "exec ev (x # xs) q = exec ev xs (step ev x q)"

fun is_SetId :: "op \<Rightarrow> bool" where
  "is_SetId (SetId s) = True"
| "is_SetId _ = False"

fun is_UpdateCustomWidget :: "op \<Rightarrow> bool" where
  "is_UpdateCustomWidget (UpdateCustomWidget g) = True"
| "is_UpdateCustomWidget _ = False"

text \<open>How often the trace records a lookup in the widget registry.\<close>

definition resolverCalls :: "question \<Rightarrow> nat" where
  "resolverCalls q = count_list (trace q) GetCustomWidget"

subsection \<open>The css classes\<close>













subsection \<open>A worked example\<close>

text \<open>
  An element built by the constructor at the initial counter, with a subscriber in every
  slot the setters fire and a survey attached; the same element with a condition and hidden;
  and an evaluator that knows the one expression \<^verbatim>\<open>{x} = 1\<close>.
\<close>

definition sampleSurvey :: survey where
  "sampleSurvey = \<lparr>survey_isDesignMode = False, updateQuestionCssClasses = (\<lambda>classes. classes)\<rparr>"

definition sampleQuestion :: question where
  "sampleQuestion =
     (fst (new_QuestionBase ''q1'' 100))
       \<lparr>renderWidthChangedCallback := Some ''onRenderWidth'',
        rowVisibilityChangedCallback := Some ''onRowVisibility'',
        startWithNewLineChangedCallback := Some ''onStartWithNewLine'',
        visibilityChangedCallback := Some ''onVisibility'',
        visibleIndexChangedCallback := Some ''onVisibleIndex'',
        survey := Some sampleSurvey\<rparr>"

definition hiddenQuestion :: question where
  "hiddenQuestion =
     sampleQuestion
       \<lparr>propertyHash := (propertyHash sampleQuestion)
          (''visible'' \<mapsto> PBool False, ''visibleIf'' \<mapsto> PStr ''{x} = 1'')\<rparr>"

definition sampleEvaluator :: evaluator where
  "sampleEvaluator e vals =
     (if e = ''{x} = 1'' then Inr (vals ''x'' = Some (PNum 1)) else Inl EvaluationError)"


section \<open>Properties\<close>

subsection \<open>Auxiliary facts\<close>

lemmas getters = visible_def visibleIf_def visibleIndex_def startWithNewLine_def width_def
  renderWidth_def indent_def rightIndent_def id_q_def getPropertyValue_def setPropertyValue_def

lemmas samples = sampleQuestion_def sampleSurvey_def
  new_QuestionBase_def getQuestionId_def onCreating_def set_id_def

lemma fireCallback_eq: "fireCallback cb q = q\<lparr>trace := trace q @ invoked cb\<rparr>"
  by (cases cb) (simp_all add: fireCallback_def)

lemma set_visible_eq:
  "set_visible val q =
     (if val = visible q then q
      else q\<lparr>propertyHash := (propertyHash q)(''visible'' \<mapsto> PBool val),
             trace := trace q @ invoked (visibilityChangedCallback q)
               @ invoked (rowVisibilityChangedCallback q)
               @ (case survey q of None \<Rightarrow> [] | Some s \<Rightarrow> [QuestionVisibilityChanged val])\<rparr>)"
  by (cases "visibilityChangedCallback q"; cases "rowVisibilityChangedCallback q"; cases "survey q")
     (simp_all add: set_visible_def fireCallback_def Let_def getters)

lemma set_startWithNewLine_eq:
  "set_startWithNewLine val q =
     (if startWithNewLine q = val then q
      else q\<lparr>propertyHash := (propertyHash q)(''startWithNewLine'' \<mapsto> PBool val),
             trace := trace q @ invoked (startWithNewLineChangedCallback q)\<rparr>)"
  by (cases "startWithNewLineChangedCallback q")
     (simp_all add: set_startWithNewLine_def Let_def getters)

lemma set_renderWidth_eq:
  "set_renderWidth val q =
     (if val = renderWidth q then q
      else q\<lparr>propertyHash := (propertyHash q)(''renderWidth'' \<mapsto> PStr val),
             trace := trace q @ invoked (renderWidthChangedCallback q)\<rparr>)"
  by (simp add: set_renderWidth_def fireCallback_eq Let_def getters)

lemma set_indent_eq:
  "set_indent val q =
     (if val = indent q then q
      else q\<lparr>propertyHash := (propertyHash q)(''indent'' \<mapsto> PNum val),
             trace := trace q @ invoked (renderWidthChangedCallback q)\<rparr>)"
  by (simp add: set_indent_def fireCallback_eq Let_def getters)

lemma set_rightIndent_eq:
  "set_rightIndent val q =
     (if val = rightIndent q then q
      else q\<lparr>propertyHash := (propertyHash q)(''rightIndent'' \<mapsto> PNum val),
             trace := trace q @ invoked (renderWidthChangedCallback q)\<rparr>)"
  by (simp add: set_rightIndent_def fireCallback_eq Let_def getters)

lemma setVisibleIndex_eq:
  "snd (setVisibleIndex val q) =
     (if visibleIndex q = val then q
      else q\<lparr>propertyHash := (propertyHash q)(''visibleIndex'' \<mapsto> PNum val),
             trace := trace q @ invoked (visibleIndexChangedCallback q)\<rparr>)"
  by (simp add: setVisibleIndex_def fireCallback_eq Let_def getters)

text \<open>The decimal numeral of a number determines the number.\<close>

lemma digit_inj: "a < 10 \<Longrightarrow> b < 10 \<Longrightarrow> digit a = digit b \<Longrightarrow> a = b"
proof -
  assume a: "a < 10" and b: "b < 10" and e: "digit a = digit b"
  have d: "distinct ''0123456789''" by simp
  have "a < length ''0123456789''" "b < length ''0123456789''" using a b by simp_all
  with d e show "a = b" unfolding digit_def by (simp only: nth_eq_iff_index_eq)
qed

lemma length_toString_small: "n < 10 \<Longrightarrow> length (toString n) = 1"
  by (simp add: toString.simps)

lemma toString_nonempty: "toString n \<noteq> []"
  by (subst toString.simps) simp

lemma length_toString_large: "\<not> n < 10 \<Longrightarrow> 2 \<le> length (toString n)"
proof -
  assume "\<not> n < 10"
  then have "toString n = toString (n div 10) @ [digit (n mod 10)]"
    by (subst toString.simps) simp
  moreover have "1 \<le> length (toString (n div 10))"
    using toString_nonempty [of "n div 10"] by (cases "toString (n div 10)") simp_all
  ultimately show ?thesis by simp
qed

lemma toString_inj: "toString m = toString n \<Longrightarrow> m = n"
proof (induction m arbitrary: n rule: toString.induct)
  case (1 m)
  show ?case
  proof (cases "m < 10")
    case True
    then have "length (toString n) = 1"
      using "1.prems" length_toString_small [of m] by simp
    then have n: "n < 10" using length_toString_large [of n] by fastforce
    from True n "1.prems" have "digit m = digit n" by (simp add: toString.simps)
    with True n show ?thesis by (rule digit_inj)
  next
    case False
    then have "2 \<le> length (toString n)"
      using "1.prems" length_toString_large [of m] by simp
    then have n: "\<not> n < 10" using length_toString_small [of n] by fastforce
    have em: "toString m = toString (m div 10) @ [digit (m mod 10)]"
      using False by (subst toString.simps) simp
    have en: "toString n = toString (n div 10) @ [digit (n mod 10)]"
      using n by (subst toString.simps) simp
    from em en "1.prems" have pre: "toString (m div 10) = toString (n div 10)"
      and dig: "digit (m mod 10) = digit (n mod 10)" by simp_all
    from "1.IH" [OF False pre] have q: "m div 10 = n div 10" .
    have r: "m mod 10 = n mod 10" using dig by (intro digit_inj) simp_all
    have "m = 10 * (m div 10) + m mod 10" by simp
    also have "\<dots> = 10 * (n div 10) + n mod 10" using q r by simp
    also have "\<dots> = n" by simp
    finally show ?thesis .
  qed
qed

lemma id_q_new: "id_q (fst (new_QuestionBase nm c)) = ''sq_'' @ toString c"
  by (simp add: new_QuestionBase_def getQuestionId_def onCreating_def set_id_def id_q_def
      getPropertyValue_def setPropertyValue_def)

lemma snd_new: "snd (new_QuestionBase nm c) = Suc c"
  by (simp add: new_QuestionBase_def getQuestionId_def)

lemma construct_all_ids:
  "map id_q (fst (construct_all nms c)) = map (\<lambda>i. ''sq_'' @ toString i) [c ..< c + length nms]"
proof (induction nms arbitrary: c)
  case Nil
  show ?case by simp
next
  case (Cons nm nms)
  have "c < c + length (nm # nms)" by simp
  then have "[c ..< c + length (nm # nms)] = c # [Suc c ..< c + length (nm # nms)]"
    by (rule upt_conv_Cons)
  then have u: "[c ..< c + length (nm # nms)] = c # [Suc c ..< Suc c + length nms]"
    by (simp only: length_Cons add_Suc_right add_Suc)
  have f: "fst (construct_all (nm # nms) c) =
      fst (new_QuestionBase nm c) # fst (construct_all nms (Suc c))"
    by (simp add: split_def snd_new Let_def)
  show ?case
    by (simp only: u f list.map id_q_new Cons.IH [of "Suc c"])
qed

lemma construct_all_distinct: "distinct (map id_q (fst (construct_all nms c)))"
proof -
  have "inj_on (\<lambda>i. ''sq_'' @ toString i) (set [c ..< c + length nms])"
    by (rule inj_onI) (simp add: toString_inj)
  then show ?thesis by (simp add: construct_all_ids distinct_map)
qed

text \<open>What an operation leaves alone: the widget binding, the lookups made so far, the id.\<close>

lemma count_invoked [simp]: "count_list (invoked cb) GetCustomWidget = 0"
  by (cases cb) simp_all

lemma runCondition_cases:
  "step ev (RunCondition vals) q = q \<or>
   (\<exists>r. step ev (RunCondition vals) q = q\<lparr>conditionRunner := Some r\<rparr>) \<or>
   (\<exists>r b. step ev (RunCondition vals) q = set_visible b (q\<lparr>conditionRunner := Some r\<rparr>))"
  by (auto simp: runCondition_def Let_def split: sum.splits)

lemma set_visible_frame:
  "isCustomWidgetRequested (set_visible b q) = isCustomWidgetRequested q"
  "customWidgetValue (set_visible b q) = customWidgetValue q"
  "count_list (trace (set_visible b q)) GetCustomWidget = count_list (trace q) GetCustomWidget"
  "propertyHash (set_visible b q) ''id'' = propertyHash q ''id''"
  "resolverCalls (set_visible b q) = resolverCalls q"
  "id_q (set_visible b q) = id_q q"
  by (cases "survey q"; simp add: set_visible_eq resolverCalls_def id_q_def getPropertyValue_def)+

lemma runner_frame:
  "resolverCalls (q\<lparr>conditionRunner := c\<rparr>) = resolverCalls q"
  "id_q (q\<lparr>conditionRunner := c\<rparr>) = id_q q"
  by (simp_all add: resolverCalls_def id_q_def getPropertyValue_def)

lemma runCondition_frame:
  "isCustomWidgetRequested (step ev (RunCondition vals) q) = isCustomWidgetRequested q"
  "customWidgetValue (step ev (RunCondition vals) q) = customWidgetValue q"
  "resolverCalls (step ev (RunCondition vals) q) = resolverCalls q"
  "id_q (step ev (RunCondition vals) q) = id_q q"
  using runCondition_cases [of ev vals q]
  by (auto simp del: step.simps simp add: set_visible_frame runner_frame)

lemma step_frame:
  assumes "\<not> is_UpdateCustomWidget x" and "\<forall>g. x \<noteq> ReadCustomWidget g"
  shows "isCustomWidgetRequested (step ev x q) = isCustomWidgetRequested q"
    and "customWidgetValue (step ev x q) = customWidgetValue q"
    and "resolverCalls (step ev x q) = resolverCalls q"
proof -
  have "isCustomWidgetRequested (step ev x q) = isCustomWidgetRequested q \<and>
    customWidgetValue (step ev x q) = customWidgetValue q \<and>
    resolverCalls (step ev x q) = resolverCalls q"
  proof (cases x)
    case (RunCondition vals)
    then show ?thesis by (simp only: runCondition_frame)
  qed (use assms in \<open>simp_all add: set_visible_frame set_visibleIf_def set_id_def
        set_startWithNewLine_eq set_width_def set_renderWidth_eq set_indent_eq
        set_rightIndent_eq setVisibleIndex_eq onSurveyLoad_def fireCallback_eq focus_def
        onSurveyValueChanged_def clearUnusedValues_def onReadOnlyChanged_def
        onAnyValueChanged_def setPropertyValue_def resolverCalls_def\<close>)
  then show "isCustomWidgetRequested (step ev x q) = isCustomWidgetRequested q"
    and "customWidgetValue (step ev x q) = customWidgetValue q"
    and "resolverCalls (step ev x q) = resolverCalls q" by simp_all
qed

lemma read_frame:
  "isCustomWidgetRequested (step ev (ReadCustomWidget g) q) =
     (isCustomWidgetRequested q \<or> customWidgetValue q = None)"
  "resolverCalls (step ev (ReadCustomWidget g) q) =
     resolverCalls q + (if \<not> isCustomWidgetRequested q \<and> customWidgetValue q = None then 1 else 0)"
  "isCustomWidgetRequested q \<or> customWidgetValue q \<noteq> None \<Longrightarrow>
     customWidgetValue (step ev (ReadCustomWidget g) q) = customWidgetValue q"
  by (auto simp: customWidget_def updateCustomWidget_def Let_def resolverCalls_def)

lemma step_resolved:
  assumes "\<not> is_UpdateCustomWidget x"
    and "isCustomWidgetRequested q \<or> customWidgetValue q \<noteq> None"
  shows "resolverCalls (step ev x q) = resolverCalls q \<and>
    (isCustomWidgetRequested (step ev x q) \<or> customWidgetValue (step ev x q) \<noteq> None)"
proof (cases "\<exists>g. x = ReadCustomWidget g")
  case True
  then obtain g where "x = ReadCustomWidget g" by blast
  then show ?thesis using assms(2) read_frame [where ev = ev and g = g and q = q] by auto
next
  case False
  then show ?thesis using assms step_frame [where x = x and ev = ev and q = q] by auto
qed

lemma exec_resolved:
  "\<not> list_ex is_UpdateCustomWidget xs \<Longrightarrow>
   isCustomWidgetRequested q \<or> customWidgetValue q \<noteq> None \<Longrightarrow>
   resolverCalls (exec ev xs q) = resolverCalls q"
proof (induction xs arbitrary: q)
  case Nil
  show ?case by simp
next
  case (Cons x xs)
  from Cons.prems have nx: "\<not> is_UpdateCustomWidget x" and nxs: "\<not> list_ex is_UpdateCustomWidget xs"
    by simp_all
  from step_resolved [OF nx Cons.prems(2), of ev]
  have "resolverCalls (step ev x q) = resolverCalls q"
    and "isCustomWidgetRequested (step ev x q) \<or> customWidgetValue (step ev x q) \<noteq> None"
    by simp_all
  with Cons.IH [OF nxs, of "step ev x q"] show ?case by simp
qed

lemma exec_at_most_once:
  "\<not> list_ex is_UpdateCustomWidget xs \<Longrightarrow> resolverCalls (exec ev xs q) \<le> resolverCalls q + 1"
proof (induction xs arbitrary: q)
  case Nil
  show ?case by simp
next
  case (Cons x xs)
  from Cons.prems have nx: "\<not> is_UpdateCustomWidget x" and nxs: "\<not> list_ex is_UpdateCustomWidget xs"
    by simp_all
  show ?case
  proof (cases "\<exists>g. x = ReadCustomWidget g")
    case True
    then obtain g where x: "x = ReadCustomWidget g" by blast
    have "isCustomWidgetRequested (step ev x q) \<or> customWidgetValue (step ev x q) \<noteq> None"
      using read_frame [where ev = ev and g = g and q = q] x by auto
    then have "resolverCalls (exec ev xs (step ev x q)) = resolverCalls (step ev x q)"
      using exec_resolved [OF nxs] by blast
    moreover have "resolverCalls (step ev x q) \<le> resolverCalls q + 1"
      using read_frame(2) [where ev = ev and g = g and q = q] x by simp
    ultimately show ?thesis by simp
  next
    case False
    then have "resolverCalls (step ev x q) = resolverCalls q"
      using nx step_frame(3) [where x = x and ev = ev and q = q] by blast
    with Cons.IH [OF nxs, of "step ev x q"] show ?thesis by simp
  qed
qed

lemma exec_reads:
  "resolverCalls (exec ev (replicate n (ReadCustomWidget g)) q) =
     resolverCalls q + (if 0 < n \<and> \<not> isCustomWidgetRequested q \<and> customWidgetValue q = None then 1 else 0)"
proof (cases n)
  case 0
  then show ?thesis by simp
next
  case (Suc k)
  have no: "\<not> list_ex is_UpdateCustomWidget (replicate k (ReadCustomWidget g))"
    by (induction k) simp_all
  have "isCustomWidgetRequested (step ev (ReadCustomWidget g) q) \<or>
      customWidgetValue (step ev (ReadCustomWidget g) q) \<noteq> None"
    using read_frame [where ev = ev and g = g and q = q] by auto
  from exec_resolved [OF no this]
  show ?thesis using Suc read_frame(2) [where ev = ev and g = g and q = q] by simp
qed

lemma step_requested: "isCustomWidgetRequested q \<Longrightarrow> isCustomWidgetRequested (step ev x q)"
proof (cases "is_UpdateCustomWidget x \<or> (\<exists>g. x = ReadCustomWidget g)")
  case True
  assume "isCustomWidgetRequested q"
  with True show ?thesis
    by (cases x) (auto simp: updateCustomWidget_def customWidget_def)
next
  case False
  assume "isCustomWidgetRequested q"
  with False step_frame(1) [where x = x and ev = ev and q = q] show ?thesis by blast
qed

lemma exec_requested: "isCustomWidgetRequested q \<Longrightarrow> isCustomWidgetRequested (exec ev xs q)"
  by (induction xs arbitrary: q) (simp_all add: step_requested)

lemma step_id: "\<not> is_SetId x \<Longrightarrow> id_q (step ev x q) = id_q q"
proof (cases x)
  case (RunCondition vals)
  then show ?thesis by (simp only: runCondition_frame)
qed (simp_all add: set_visible_frame set_visibleIf_def
        set_startWithNewLine_eq set_width_def set_renderWidth_eq set_indent_eq
        set_rightIndent_eq setVisibleIndex_eq onSurveyLoad_def fireCallback_eq focus_def
        onSurveyValueChanged_def clearUnusedValues_def onReadOnlyChanged_def
        onAnyValueChanged_def setPropertyValue_def id_q_def getPropertyValue_def
        customWidget_def updateCustomWidget_def Let_def)

lemma exec_id: "\<not> list_ex is_SetId xs \<Longrightarrow> id_q (exec ev xs q) = id_q q"
  by (induction xs arbitrary: q) (simp_all add: step_id)








subsection \<open>Running the visibility condition\<close>

text \<open>
  Claim C1. Let the element have the condition \<^verbatim>\<open>{x} = 1\<close> and be hidden, and let the
  evaluator find the condition true on the values \<^verbatim>\<open>{x: 1}\<close>. Then \<^verbatim>\<open>runCondition\<close> returns, and
  the element it leaves is the one the setter of \<open>visible\<close> gives for \<open>True\<close> (after the
  runner is stored): it is visible, and the trace has grown by the visibility-change slot
  fired once, then the row-visibility-change slot fired once, then the notification of the
  survey if one is attached. Running the condition again on the same values returns that
  very element: nothing changes and nothing more is fired.
\<close>

theorem runCondition_makes_visible_once:
  assumes "visibleIf q = ''{x} = 1''" and "\<not> visible q"
    and "ev ''{x} = 1'' [''x'' \<mapsto> PNum 1] = Inr True"
  shows "\<exists>q1. runCondition ev [''x'' \<mapsto> PNum 1] q = Inr q1 \<and>
     q1 = set_visible True (q\<lparr>conditionRunner := Some \<lparr>expression = ''{x} = 1''\<rparr>\<rparr>) \<and>
     visible q1 \<and>
     trace q1 = trace q @ invoked (visibilityChangedCallback q)
        @ invoked (rowVisibilityChangedCallback q)
        @ (case survey q of None \<Rightarrow> [] | Some s \<Rightarrow> [QuestionVisibilityChanged True]) \<and>
     runCondition ev [''x'' \<mapsto> PNum 1] q1 = Inr q1"
proof -
  let ?vals = "[''x'' \<mapsto> PNum 1]"
  let ?r = "\<lparr>expression = ''{x} = 1''\<rparr>"
  let ?q0 = "q\<lparr>conditionRunner := Some ?r\<rparr>"
  define q1 where "q1 = set_visible True ?q0"
  have sync: "\<And>c e. (case c of None \<Rightarrow> new_ConditionRunner e | Some r \<Rightarrow> r)
      \<lparr>expression := ''{x} = 1''\<rparr> = ?r"
    by (simp add: new_ConditionRunner_def split: option.splits)
  have first: "runCondition ev ?vals q = Inr q1"
    using assms(1,3) by (simp add: runCondition_def Let_def sync run_def q1_def)
  have v0: "\<not> visible ?q0" using assms(2) by (simp add: getters)
  have vis: "visible q1" using v0 by (simp add: q1_def set_visible_eq getters)
  have vif: "visibleIf q1 = ''{x} = 1''"
    using assms(1) v0 by (simp add: q1_def set_visible_eq getters)
  have cr: "conditionRunner q1 = Some ?r"
    by (simp add: q1_def set_visible_eq)
  have tr: "trace q1 = trace q @ invoked (visibilityChangedCallback q)
        @ invoked (rowVisibilityChangedCallback q)
        @ (case survey q of None \<Rightarrow> [] | Some s \<Rightarrow> [QuestionVisibilityChanged True])"
    using v0 by (simp add: q1_def set_visible_eq)
  have same: "q1\<lparr>conditionRunner := Some ?r\<rparr> = q1"
    by (simp add: cr [symmetric])
  have again: "set_visible True q1 = q1" using vis by (simp add: set_visible_def)
  have second: "runCondition ev ?vals q1 = Inr q1"
    using assms(3) by (simp add: runCondition_def Let_def run_def vif cr same again)
  show ?thesis using first vis tr second q1_def by simp
qed

theorem runCondition_makes_visible_once_witness:
  "visibleIf hiddenQuestion = ''{x} = 1'' \<and> \<not> visible hiddenQuestion \<and>
   sampleEvaluator ''{x} = 1'' [''x'' \<mapsto> PNum 1] = Inr True \<and>
   (\<exists>q1. runCondition sampleEvaluator [''x'' \<mapsto> PNum 1] hiddenQuestion = Inr q1 \<and>
      visible q1 \<and>
      trace q1 =
        [Invoked ''onVisibility'', Invoked ''onRowVisibility'', QuestionVisibilityChanged True] \<and>
      runCondition sampleEvaluator [''x'' \<mapsto> PNum 1] q1 = Inr q1)"
proof -
  have h1: "visibleIf hiddenQuestion = ''{x} = 1''"
    by (simp add: hiddenQuestion_def samples getters)
  have h2: "\<not> visible hiddenQuestion" by (simp add: hiddenQuestion_def samples getters)
  have h3: "sampleEvaluator ''{x} = 1'' [''x'' \<mapsto> PNum 1] = Inr True"
    by (simp add: sampleEvaluator_def)
  have t: "trace hiddenQuestion = []"
    "visibilityChangedCallback hiddenQuestion = Some ''onVisibility''"
    "rowVisibilityChangedCallback hiddenQuestion = Some ''onRowVisibility''"
    "survey hiddenQuestion = Some sampleSurvey"
    by (simp_all add: hiddenQuestion_def samples setPropertyValue_def)
  from runCondition_makes_visible_once
    [where q = hiddenQuestion and ev = sampleEvaluator, OF h1 h2 h3]
  obtain q1 where
    "runCondition sampleEvaluator [''x'' \<mapsto> PNum 1] hiddenQuestion = Inr q1" "visible q1"
    "trace q1 =
       [Invoked ''onVisibility'', Invoked ''onRowVisibility'', QuestionVisibilityChanged True]"
    "runCondition sampleEvaluator [''x'' \<mapsto> PNum 1] q1 = Inr q1"
    by (auto simp: t)
  with h1 h2 h3 show ?thesis by blast
qed

text \<open>
  Claim C2. With an empty \<open>visibleIf\<close>, \<^verbatim>\<open>runCondition\<close> returns the element as it was, whatever
  the values and the evaluator: \<open>visible\<close> is unchanged, the trace is unchanged, and the field
  \<open>conditionRunner\<close> is unchanged, so no evaluator was constructed.
\<close>

theorem runCondition_empty_visibleIf:
  "visibleIf q = [] \<Longrightarrow> runCondition ev vals q = Inr q"
  by (simp add: runCondition_def)

theorem runCondition_empty_visibleIf_witness:
  "visibleIf sampleQuestion = [] \<and>
   runCondition sampleEvaluator Map.empty sampleQuestion = Inr sampleQuestion \<and>
   conditionRunner sampleQuestion = None"
proof -
  have h: "visibleIf sampleQuestion = []" by (simp add: samples getters)
  show ?thesis
    using h runCondition_empty_visibleIf [OF h] by (simp add: samples setPropertyValue_def)
qed

subsection \<open>Setters and their hooks\<close>

text \<open>
  Claim C3. Assigning \<open>visible\<close> a value that differs from the current one stores the value
  and extends the trace by exactly: the visibility-change slot, then the row-visibility-change
  slot, then, only if a survey is attached, the notification \<^verbatim>\<open>questionVisibilityChanged\<close>
  with the new boolean. Without a survey the trace ends after the two slots.
\<close>

theorem set_visible_effects_in_order:
  assumes "val \<noteq> visible q"
  shows "visible (set_visible val q) = val \<and>
     trace (set_visible val q) =
       trace q @ invoked (visibilityChangedCallback q) @ invoked (rowVisibilityChangedCallback q)
        @ (case survey q of None \<Rightarrow> [] | Some s \<Rightarrow> [QuestionVisibilityChanged val])"
  using assms by (cases "survey q") (auto simp: set_visible_eq getters)

theorem set_visible_effects_in_order_witness:
  "False \<noteq> visible sampleQuestion \<and> visible (set_visible False sampleQuestion) = False \<and>
   trace (set_visible False sampleQuestion) =
     [Invoked ''onVisibility'', Invoked ''onRowVisibility'', QuestionVisibilityChanged False] \<and>
   trace (set_visible False (sampleQuestion\<lparr>survey := None\<rparr>)) =
     [Invoked ''onVisibility'', Invoked ''onRowVisibility'']"
proof -
  have h: "False \<noteq> visible sampleQuestion" by (simp add: samples getters)
  have h': "False \<noteq> visible (sampleQuestion\<lparr>survey := None\<rparr>)" by (simp add: samples getters)
  show ?thesis
    using h set_visible_effects_in_order [OF h] set_visible_effects_in_order [OF h']
    by (simp add: samples setPropertyValue_def)
qed

text \<open>
  Claim C4. For each of \<open>visible\<close>, \<open>renderWidth\<close>, \<open>indent\<close>, \<open>rightIndent\<close>, \<open>startWithNewLine\<close>
  and \<open>visibleIndex\<close>, setting the property to its current value returns the element
  unchanged: the trace is the same, so no hook was fired and no survey was notified.
\<close>

theorem set_current_value_is_noop:
  "set_visible (visible q) q = q \<and>
   set_renderWidth (renderWidth q) q = q \<and>
   set_indent (indent q) q = q \<and>
   set_rightIndent (rightIndent q) q = q \<and>
   set_startWithNewLine (startWithNewLine q) q = q \<and>
   setVisibleIndex (visibleIndex q) q = (1, q)"
  by (simp add: set_visible_def set_renderWidth_def set_indent_def set_rightIndent_def
      set_startWithNewLine_def setVisibleIndex_def)

text \<open>
  Claim C5, as the source has it. Setting \<open>renderWidth\<close> stores the value and fires the
  render-width-change slot exactly when the value differs from the current one. Setting
  \<open>width\<close> stores the value and fires nothing, whether the value differs or not: the class
  has no slot for a change of \<open>width\<close>.
\<close>

theorem set_renderWidth_and_set_width:
  "trace (set_renderWidth val q) =
     trace q @ (if val = renderWidth q then [] else invoked (renderWidthChangedCallback q)) \<and>
   renderWidth (set_renderWidth val q) = val \<and>
   trace (set_width val q) = trace q \<and>
   width (set_width val q) = val"
  by (simp add: set_renderWidth_eq set_width_def getters)

text \<open>
  The claim as written fails for \<open>width\<close>: on the sample element, which has a subscriber in
  every slot, assigning a \<open>width\<close> different from the current one leaves the trace as it was.
\<close>

theorem set_width_fires_nothing_counterexample:
  "width sampleQuestion \<noteq> ''100px'' \<and>
   width (set_width ''100px'' sampleQuestion) = ''100px'' \<and>
   trace (set_width ''100px'' sampleQuestion) = trace sampleQuestion"
  by (simp add: samples getters set_width_def)

subsection \<open>Base-level answers\<close>

text \<open>
  Claim C6, as the source has it. A freshly constructed base element has no errors
  (\<open>getAllErrors\<close> empty, \<open>hasErrors\<close> false, \<open>currentErrorCount\<close> zero), has no title, no
  description, no input and no comment, and is read-only: \<open>isReadOnly\<close> is true.
\<close>

theorem base_level_answers:
  "getAllErrors (fst (new_QuestionBase nm questionCounter)) = [] \<and>
   hasErrors (fst (new_QuestionBase nm questionCounter)) fire = False \<and>
   currentErrorCount (fst (new_QuestionBase nm questionCounter)) = 0 \<and>
   hasTitle (fst (new_QuestionBase nm questionCounter)) = False \<and>
   hasDescription (fst (new_QuestionBase nm questionCounter)) = False \<and>
   hasInput (fst (new_QuestionBase nm questionCounter)) = False \<and>
   hasComment (fst (new_QuestionBase nm questionCounter)) = False \<and>
   isReadOnly (fst (new_QuestionBase nm questionCounter)) = True"
  by (simp add: getAllErrors_def hasErrors_def currentErrorCount_def hasTitle_def
      hasDescription_def hasInput_def hasComment_def isReadOnly_def)

text \<open>The claim as written has \<open>isReadOnly\<close> false; on a fresh element it is not.\<close>

theorem isReadOnly_counterexample:
  "isReadOnly (fst (new_QuestionBase ''q1'' 100)) \<noteq> False"
  by (simp add: isReadOnly_def)

subsection \<open>Visibility in design mode\<close>

text \<open>
  Claim C10, as the source has it. \<open>isVisible\<close> returns \<open>true\<close> exactly when \<open>visible\<close> is true,
  or a survey is attached and reports design mode; it is truthy in exactly these cases.
  Without a survey, \<open>isVisible\<close> is truthy exactly when \<open>visible\<close> is true: it is \<open>true\<close> for a
  visible element, and for a hidden one it is the absent survey reference itself, which is
  falsy but is not \<open>false\<close>.
\<close>

theorem isVisible_iff:
  "(isVisible q = JBool True) = (visible q \<or> (\<exists>s. survey q = Some s \<and> survey_isDesignMode s)) \<and>
   truthy (isVisible q) = (visible q \<or> (\<exists>s. survey q = Some s \<and> survey_isDesignMode s)) \<and>
   (survey q = None \<longrightarrow>
      truthy (isVisible q) = visible q \<and>
      isVisible q = (if visible q then JBool True else JUndefined))"
  by (cases "survey q") (simp_all add: isVisible_def isDesignMode_def)

theorem isVisible_iff_witness:
  "survey (sampleQuestion\<lparr>survey := None\<rparr>) = None \<and>
   visible (sampleQuestion\<lparr>survey := None\<rparr>) \<and>
   isVisible (sampleQuestion\<lparr>survey := None\<rparr>) = JBool True \<and>
   truthy (isVisible (sampleQuestion\<lparr>survey := None\<rparr>)) \<and>
   \<not> truthy (isVisible hiddenQuestion) \<and>
   isVisible (hiddenQuestion\<lparr>survey := Some (sampleSurvey\<lparr>survey_isDesignMode := True\<rparr>)\<rparr>) =
     JBool True"
  using isVisible_iff [of "sampleQuestion\<lparr>survey := None\<rparr>"]
    isVisible_iff [of hiddenQuestion]
    isVisible_iff [of "hiddenQuestion\<lparr>survey := Some (sampleSurvey\<lparr>survey_isDesignMode := True\<rparr>)\<rparr>"]
  by (simp add: hiddenQuestion_def samples getters)

text \<open>
  The claim as written has \<open>isVisible\<close> equal \<open>visible\<close> whenever no survey is attached. On the
  hidden sample element without its survey, \<open>visible\<close> is \<open>false\<close> and \<open>isVisible\<close> is undefined.
\<close>

theorem isVisible_undefined_counterexample:
  "survey (hiddenQuestion\<lparr>survey := None\<rparr>) = None \<and>
   visible (hiddenQuestion\<lparr>survey := None\<rparr>) = False \<and>
   isVisible (hiddenQuestion\<lparr>survey := None\<rparr>) = JUndefined \<and>
   isVisible (hiddenQuestion\<lparr>survey := None\<rparr>) \<noteq> JBool (visible (hiddenQuestion\<lparr>survey := None\<rparr>))"
  by (simp add: isVisible_def isDesignMode_def hiddenQuestion_def samples getters)

subsection \<open>The custom widget is looked up once\<close>

text \<open>
  Claim C8. Over any sequence of operations without a call of \<^verbatim>\<open>updateCustomWidget\<close>, reads of
  \<open>customWidget\<close> among them or not, the widget registry is asked at most once. Reading
  \<open>customWidget\<close> \<open>n\<close> times in a row asks it exactly once if \<open>n\<close> is positive and the element
  had neither asked before nor holds a widget, and not at all otherwise, whatever the
  registry answers. Every call of \<^verbatim>\<open>updateCustomWidget\<close> asks the registry once more and
  stores its answer. Once the flag \<open>isCustomWidgetRequested\<close> is true it stays true under
  every sequence of operations.
\<close>

theorem customWidget_resolved_once:
  "(\<not> list_ex is_UpdateCustomWidget ops \<longrightarrow>
      resolverCalls (exec ev ops q) \<le> resolverCalls q + 1) \<and>
   resolverCalls (exec ev (replicate n (ReadCustomWidget g)) q) =
      resolverCalls q +
        (if 0 < n \<and> \<not> isCustomWidgetRequested q \<and> customWidgetValue q = None then 1 else 0) \<and>
   resolverCalls (updateCustomWidget g q) = resolverCalls q + 1 \<and>
   customWidgetValue (updateCustomWidget g q) = g q \<and>
   (isCustomWidgetRequested q \<longrightarrow> isCustomWidgetRequested (exec ev ops q))"
proof -
  have "resolverCalls (updateCustomWidget g q) = resolverCalls q + 1"
    and "customWidgetValue (updateCustomWidget g q) = g q"
    by (simp_all add: updateCustomWidget_def resolverCalls_def)
  then show ?thesis
    using exec_at_most_once [of ops ev q] exec_reads [of ev n g q] exec_requested [of q ev ops]
    by blast
qed

theorem customWidget_resolved_once_witness:
  "\<not> list_ex is_UpdateCustomWidget
      [ReadCustomWidget (\<lambda>q. None), SetVisible False, ReadCustomWidget (\<lambda>q. None)] \<and>
   resolverCalls sampleQuestion = 0 \<and>
   resolverCalls (exec sampleEvaluator
      [ReadCustomWidget (\<lambda>q. None), SetVisible False, ReadCustomWidget (\<lambda>q. None)]
      sampleQuestion) \<le> 1 \<and>
   resolverCalls (exec sampleEvaluator (replicate 3 (ReadCustomWidget (\<lambda>q. None))) sampleQuestion) = 1 \<and>
   isCustomWidgetRequested (sampleQuestion\<lparr>isCustomWidgetRequested := True\<rparr>) \<and>
   isCustomWidgetRequested (exec sampleEvaluator
      [UpdateCustomWidget (\<lambda>q. None), SetVisible False, ReadCustomWidget (\<lambda>q. None)]
      (sampleQuestion\<lparr>isCustomWidgetRequested := True\<rparr>))"
proof -
  have h: "\<not> list_ex is_UpdateCustomWidget
      [ReadCustomWidget (\<lambda>q. None), SetVisible False, ReadCustomWidget (\<lambda>q. None)]"
    by simp
  have r: "isCustomWidgetRequested (sampleQuestion\<lparr>isCustomWidgetRequested := True\<rparr>)"
    by simp
  have z: "resolverCalls sampleQuestion = 0" "\<not> isCustomWidgetRequested sampleQuestion"
    "customWidgetValue sampleQuestion = None"
    by (simp_all add: samples resolverCalls_def setPropertyValue_def)
  show ?thesis
    using h r z
      customWidget_resolved_once [where q = sampleQuestion and ev = sampleEvaluator
        and ops = "[ReadCustomWidget (\<lambda>q. None), SetVisible False, ReadCustomWidget (\<lambda>q. None)]"
        and n = 3 and g = "\<lambda>q. None"]
      customWidget_resolved_once [where q = "sampleQuestion\<lparr>isCustomWidgetRequested := True\<rparr>"
        and ev = sampleEvaluator
        and ops = "[UpdateCustomWidget (\<lambda>q. None), SetVisible False, ReadCustomWidget (\<lambda>q. None)]"
        and n = 0 and g = "\<lambda>q. None"]
    by (simp del: exec.simps step.simps replicate.simps)
qed

subsection \<open>The id\<close>

text \<open>
  Claim C9, as the source has it. The constructor assigns the id \<^verbatim>\<open>sq_\<close> followed by the
  decimal counter: a non-empty string. The elements constructed one after another, from
  any counter, have pairwise distinct ids. No sequence of operations without an assignment
  to \<open>id\<close> changes the id of an element.
\<close>

theorem id_assigned_at_construction:
  "id_q (fst (new_QuestionBase nm questionCounter)) = ''sq_'' @ toString questionCounter \<and>
   id_q (fst (new_QuestionBase nm questionCounter)) \<noteq> [] \<and>
   distinct (map id_q (fst (construct_all nms questionCounter))) \<and>
   (\<not> list_ex is_SetId ops \<longrightarrow> id_q (exec ev ops q) = id_q q)"
  using id_q_new [of nm questionCounter] construct_all_distinct [of nms questionCounter]
    exec_id [of ops ev q]
  by simp

theorem id_assigned_at_construction_witness:
  "\<not> list_ex is_SetId [SetVisible False, RunCondition Map.empty, SetIndent 2, OnSurveyLoad] \<and>
   id_q sampleQuestion = ''sq_100'' \<and>
   id_q (exec sampleEvaluator [SetVisible False, RunCondition Map.empty, SetIndent 2, OnSurveyLoad]
      sampleQuestion) = ''sq_100'' \<and>
   map id_q (fst (construct_all [''a'', ''b'', ''c''] 100)) = [''sq_100'', ''sq_101'', ''sq_102''] \<and>
   distinct (map id_q (fst (construct_all [''a'', ''b'', ''c''] 100)))"
proof -
  have h: "\<not> list_ex is_SetId [SetVisible False, RunCondition Map.empty, SetIndent 2, OnSurveyLoad]"
    by simp
  have i: "id_q sampleQuestion = ''sq_100''"
    by (simp add: samples getters toString.simps digit_def)
  have m: "map id_q (fst (construct_all [''a'', ''b'', ''c''] 100)) =
      [''sq_100'', ''sq_101'', ''sq_102'']"
    by (simp only: construct_all_ids) (simp add: toString.simps digit_def)
  show ?thesis
    using h i m
      id_assigned_at_construction [where q = sampleQuestion and ev = sampleEvaluator
        and ops = "[SetVisible False, RunCondition Map.empty, SetIndent 2, OnSurveyLoad]"
        and nms = "[''a'', ''b'', ''c'']" and questionCounter = 100 and nm = "''q1''"]
    by (simp del: exec.simps step.simps)
qed

text \<open>
  The claim as written has the id never reassigned by any later operation; the public
  setter of \<open>id\<close> reassigns it.
\<close>

theorem id_setter_reassigns_counterexample:
  "id_q (fst (new_QuestionBase ''q1'' 100)) = ''sq_100'' \<and>
   id_q (step sampleEvaluator (SetId ''mine'') (fst (new_QuestionBase ''q1'' 100))) = ''mine''"
  by (simp add: samples getters toString.simps digit_def)

subsection \<open>Layers of css classes\<close>



end
